theory Spec2Isabelle
  imports Main
begin

section \<open>Values and dictionaries\<close>

text \<open>
  The values that travel through an intent: \<open>filters\<close> is declared
  \<^verbatim>\<open>Dict[str, Any]\<close>, so a filter value is any value of the structured output
  (null, boolean, integer, string, list, object). The bounds of a time range are
  strings (\<^verbatim>\<open>Dict[str, str]\<close>).
\<close>

datatype json =
    JNull
  | JBool bool
  | JInt int
  | JStr string
  | JList "json list"
  | JObj "(string \<times> json) list"

text \<open>
  A Python \<^verbatim>\<open>dict\<close> keeps its entries in insertion order and \<^verbatim>\<open>items()\<close>
  iterates in that order, so a dictionary is an association list whose keys are
  distinct. \<^verbatim>\<open>d[k] = v\<close> replaces the value in place when the key is there and
  appends the entry otherwise.
\<close>

type_synonym ('k, 'v) dict = "('k \<times> 'v) list"

fun dict_set :: "('k, 'v) dict \<Rightarrow> 'k \<Rightarrow> 'v \<Rightarrow> ('k, 'v) dict" where
  "dict_set [] k v = [(k, v)]"
| "dict_set ((k', v') # d) k v = (if k' = k then (k, v) # d else (k', v') # dict_set d k v)"

text \<open>
  \<^verbatim>\<open>d1 == d2\<close> on dictionaries compares the entries and not their order.
\<close>

definition dict_eq :: "('k, 'v) dict \<Rightarrow> ('k, 'v) dict \<Rightarrow> bool" where
  "dict_eq d1 d2 = (set d1 = set d2)"

text \<open>\<^verbatim>\<open>sep.join(xs)\<close>\<close>

fun join :: "string \<Rightarrow> string list \<Rightarrow> string" where
  "join sep [] = []"
| "join sep [x] = x"
| "join sep (x # y # ys) = x @ sep @ join sep (y # ys)"

section \<open>The intent (nlp_service.py, class QueryIntent)\<close>

record QueryIntent =
  intent :: string
  metric :: string
  time_range :: "(string, string) dict option"
  filters :: "(string, json) dict"
  group_by :: "string option"

datatype error =
    ValueError string
  | ValidationError "string list"

text \<open>
  \<^verbatim>\<open>QueryIntent\<close> is a pydantic \<^verbatim>\<open>BaseModel\<close> that declares five typed fields and
  no validator of its own, so constructing it from a raw key/value structure checks
  only that \<^verbatim>\<open>intent\<close> and \<^verbatim>\<open>metric\<close> are there (\<^verbatim>\<open>Field(...)\<close>) and that each
  value has the declared type; the names of the fields at fault are reported together.
  \<^verbatim>\<open>time_range\<close> and \<^verbatim>\<open>group_by\<close> default to \<^verbatim>\<open>None\<close>, \<^verbatim>\<open>filters\<close> to a new
  empty dictionary; keys that are not fields are dropped.
\<close>

fun as_str :: "json \<Rightarrow> string option" where
  "as_str (JStr s) = Some s"
| "as_str _ = None"

fun as_str_dict :: "(string, json) dict \<Rightarrow> (string, string) dict option" where
  "as_str_dict [] = Some []"
| "as_str_dict ((k, v) # kvs) =
     (case as_str v of
        None \<Rightarrow> None
      | Some s \<Rightarrow> map_option ((#) (k, s)) (as_str_dict kvs))"

definition required_str :: "json option \<Rightarrow> string option" where
  "required_str r = (case r of None \<Rightarrow> None | Some v \<Rightarrow> as_str v)"

definition optional_str :: "json option \<Rightarrow> string option option" where
  "optional_str r =
     (case r of
        None \<Rightarrow> Some None
      | Some JNull \<Rightarrow> Some None
      | Some v \<Rightarrow> map_option Some (as_str v))"

definition optional_str_dict :: "json option \<Rightarrow> (string, string) dict option option" where
  "optional_str_dict r =
     (case r of
        None \<Rightarrow> Some None
      | Some JNull \<Rightarrow> Some None
      | Some (JObj kvs) \<Rightarrow> map_option Some (as_str_dict kvs)
      | Some _ \<Rightarrow> None)"

definition any_dict :: "json option \<Rightarrow> (string, json) dict option" where
  "any_dict r =
     (case r of
        None \<Rightarrow> Some []
      | Some (JObj kvs) \<Rightarrow> Some kvs
      | Some _ \<Rightarrow> None)"

definition field_error :: "string \<Rightarrow> 'a option \<Rightarrow> string list" where
  "field_error name r = (case r of None \<Rightarrow> [name] | Some _ \<Rightarrow> [])"

definition QueryIntent_init :: "(string, json) dict \<Rightarrow> error + QueryIntent" where
  "QueryIntent_init raw =
     (let a = required_str (map_of raw ''intent'');
          m = required_str (map_of raw ''metric'');
          t = optional_str_dict (map_of raw ''time_range'');
          f = any_dict (map_of raw ''filters'');
          g = optional_str (map_of raw ''group_by'')
      in case (a, m, t, f, g) of
           (Some a', Some m', Some t', Some f', Some g') \<Rightarrow>
             Inr \<lparr>intent = a', metric = m', time_range = t', filters = f', group_by = g'\<rparr>
         | _ \<Rightarrow>
             Inl (ValidationError
                    (field_error ''intent'' a @ field_error ''metric'' m
                     @ field_error ''time_range'' t @ field_error ''filters'' f
                     @ field_error ''group_by'' g)))"

text \<open>
  Two intents are equal (\<^verbatim>\<open>==\<close> on the model) when their fields are; the two
  dictionary fields are compared as dictionaries, whatever the order of insertion.
\<close>

definition time_range_eq ::
    "(string, string) dict option \<Rightarrow> (string, string) dict option \<Rightarrow> bool" where
  "time_range_eq t1 t2 =
     (case (t1, t2) of
        (None, None) \<Rightarrow> True
      | (Some d1, Some d2) \<Rightarrow> dict_eq d1 d2
      | _ \<Rightarrow> False)"

definition intent_eq :: "QueryIntent \<Rightarrow> QueryIntent \<Rightarrow> bool" where
  "intent_eq i1 i2 =
     (intent i1 = intent i2 \<and> metric i1 = metric i2
      \<and> time_range_eq (time_range i1) (time_range i2)
      \<and> dict_eq (filters i1) (filters i2)
      \<and> group_by i1 = group_by i2)"

text \<open>The keys of a dictionary are distinct.\<close>

definition is_dict :: "('k, 'v) dict \<Rightarrow> bool" where
  "is_dict d = distinct (map fst d)"

definition well_formed :: "QueryIntent \<Rightarrow> bool" where
  "well_formed i =
     (is_dict (filters i) \<and> (case time_range i of None \<Rightarrow> True | Some d \<Rightarrow> is_dict d))"

section \<open>The query builder (nlp_service.py, class QueryBuilder)\<close>

text \<open>
  Both builders keep two locals, the list \<^verbatim>\<open>where_clauses\<close> and the dictionary
  \<^verbatim>\<open>params\<close>, and update them in the same two blocks: the time range first
  (lines 120-127 and 151-158), then the loop over \<^verbatim>\<open>intent.filters.items()\<close>
  (lines 129-132 and 160-163).
\<close>

type_synonym params = "(string, json) dict"
type_synonym builder_state = "string list \<times> params"

text \<open>
  \<^verbatim>\<open>if intent.time_range:\<close> is false for \<^verbatim>\<open>None\<close> and for the empty dictionary.
  \<^verbatim>\<open>'start' in d\<close> followed by \<^verbatim>\<open>d['start']\<close> is one lookup.
\<close>

definition handle_time_range :: "(string, string) dict option \<Rightarrow> builder_state \<Rightarrow> builder_state" where
  "handle_time_range tr st =
     (case tr of
        None \<Rightarrow> st
      | Some d \<Rightarrow>
          if d = [] then st
          else
            let st1 = (case map_of d ''start'' of
                         None \<Rightarrow> st
                       | Some s \<Rightarrow> (fst st @ [''created_at >= :start_date''],
                                    dict_set (snd st) ''start_date'' (JStr s)));
                st2 = (case map_of d ''end'' of
                         None \<Rightarrow> st1
                       | Some e \<Rightarrow> (fst st1 @ [''created_at <= :end_date''],
                                    dict_set (snd st1) ''end_date'' (JStr e)))
            in st2)"

fun handle_filters :: "(string, json) dict \<Rightarrow> builder_state \<Rightarrow> builder_state" where
  "handle_filters [] st = st"
| "handle_filters ((key, val) # rest) (where_clauses, ps) =
     handle_filters rest (where_clauses @ [key @ '' = :'' @ key], dict_set ps key val)"

text \<open>\<^verbatim>\<open>f"WHERE {' AND '.join(where_clauses)}" if where_clauses else ""\<close>\<close>

definition where_clause :: "string list \<Rightarrow> string" where
  "where_clause where_clauses =
     (if where_clauses \<noteq> [] then ''WHERE '' @ join '' AND '' where_clauses else [])"

definition build_count_query :: "QueryIntent \<Rightarrow> string \<times> params" where
  "build_count_query i =
     (let st = handle_time_range (time_range i) ([], []);
          (where_clauses, ps) = handle_filters (filters i) st;
          query = (if metric i = ''videos''
                   then ''SELECT COUNT(*) FROM videos '' @ where_clause where_clauses
                   else ''SELECT COUNT(DISTINCT video_id) FROM video_snapshots ''
                          @ where_clause where_clauses)
      in (query, ps))"

text \<open>The dictionary literal of lines 166-171 with its \<^verbatim>\<open>.get\<close> default.\<close>

definition metric_column :: "string \<Rightarrow> string" where
  "metric_column m =
     (case map_of [(''views'', ''delta_views_count''),
                   (''likes'', ''delta_likes_count''),
                   (''comments'', ''delta_comments_count''),
                   (''reports'', ''delta_reports_count'')] m of
        Some c \<Rightarrow> c
      | None \<Rightarrow> ''delta_views_count'')"

definition build_sum_query :: "QueryIntent \<Rightarrow> string \<times> params" where
  "build_sum_query i =
     (let st = handle_time_range (time_range i) ([], []);
          (where_clauses, ps) = handle_filters (filters i) st;
          query = ''SELECT COALESCE(SUM('' @ metric_column (metric i)
                    @ ''), 0) FROM video_snapshots '' @ where_clause where_clauses
      in (query, ps))"

definition build_query :: "QueryIntent \<Rightarrow> error + string \<times> params" where
  "build_query i =
     (if intent i = ''count'' then Inr (build_count_query i)
      else if intent i = ''sum'' then Inr (build_sum_query i)
      else Inl (ValueError (''Unsupported query type: '' @ intent i)))"

text \<open>The observable parts of a result: the template, and the names of the parameters.\<close>

definition template_of :: "error + string \<times> params \<Rightarrow> error + string" where
  "template_of r = map_sum id fst r"

definition param_names_of :: "error + string \<times> params \<Rightarrow> error + string list" where
  "param_names_of r = map_sum id (\<lambda>qp. map fst (snd qp)) r"

text \<open>
  The values of the two locals \<^verbatim>\<open>where_clauses\<close> and \<^verbatim>\<open>params\<close> once both blocks
  have run (line 134, line 165).
\<close>

definition where_clauses_of :: "QueryIntent \<Rightarrow> string list" where
  "where_clauses_of i = fst (handle_filters (filters i) (handle_time_range (time_range i) ([], [])))"

definition params_of :: "QueryIntent \<Rightarrow> params" where
  "params_of i = snd (handle_filters (filters i) (handle_time_range (time_range i) ([], [])))"

section \<open>Facts about the two blocks\<close>

lemma keys_dict_set:
  "map fst (dict_set d k v) = (if k \<in> set (map fst d) then map fst d else map fst d @ [k])"
  by (induction d) (auto simp: rev_image_eqI)


lemma handle_filters_clauses:
  "fst (handle_filters fs st) = fst st @ map (\<lambda>k. k @ '' = :'' @ k) (map fst fs)"
proof (induction fs arbitrary: st)
  case Nil
  then show ?case by simp
next
  case (Cons kv fs)
  obtain k v where kv: "kv = (k, v)" by (cases kv)
  obtain w ps where st: "st = (w, ps)" by (cases st)
  show ?case unfolding kv st by (simp add: Cons.IH)
qed

lemma handle_filters_param_keys:
  "map fst fs = map fst fs' \<Longrightarrow> map fst (snd st) = map fst (snd st') \<Longrightarrow>
   map fst (snd (handle_filters fs st)) = map fst (snd (handle_filters fs' st'))"
proof (induction fs arbitrary: fs' st st')
  case Nil
  then show ?case by simp
next
  case (Cons kv fs)
  obtain k v where kv: "kv = (k, v)" by (cases kv)
  from Cons.prems(1) obtain v' gs where fs': "fs' = (k, v') # gs" and tl: "map fst fs = map fst gs"
    unfolding kv by (cases fs') auto
  obtain w ps where st: "st = (w, ps)" by (cases st)
  obtain w' ps' where st': "st' = (w', ps')" by (cases st')
  from Cons.prems(2) have ks: "map fst ps = map fst ps'" by (simp add: st st')
  have "map fst (dict_set ps k v) = map fst (dict_set ps' k v')"
    by (simp add: keys_dict_set ks)
  then show ?case
    unfolding kv fs' st st' using Cons.IH [OF tl] by simp
qed


lemma handle_filters_binds_keys:
  "set (map fst fs) \<union> set (map fst (snd st)) \<subseteq> set (map fst (snd (handle_filters fs st)))"
proof (induction fs arbitrary: st)
  case Nil
  then show ?case by simp
next
  case (Cons kv fs)
  obtain k v where kv: "kv = (k, v)" by (cases kv)
  obtain w ps where st: "st = (w, ps)" by (cases st)
  have "set (map fst (dict_set ps k v)) = insert k (set (map fst ps))"
    by (auto simp: keys_dict_set)
  then show ?case unfolding kv st using Cons.IH [of "(w @ [k @ '' = :'' @ k], dict_set ps k v)"]
    by auto
qed

lemma handle_time_range_clauses:
  "fst (handle_time_range tr st) = fst st @
     (case tr of None \<Rightarrow> [] | Some d \<Rightarrow>
        (case map_of d ''start'' of None \<Rightarrow> [] | Some _ \<Rightarrow> [''created_at >= :start_date'']) @
        (case map_of d ''end'' of None \<Rightarrow> [] | Some _ \<Rightarrow> [''created_at <= :end_date'']))"
  by (auto simp: handle_time_range_def Let_def split: option.splits)



lemma build_count_query_eq:
  "build_count_query i =
     ((if metric i = ''videos'' then ''SELECT COUNT(*) FROM videos ''
       else ''SELECT COUNT(DISTINCT video_id) FROM video_snapshots '')
      @ where_clause (where_clauses_of i), params_of i)"
  by (simp add: build_count_query_def where_clauses_of_def params_of_def Let_def case_prod_unfold)

lemma build_sum_query_eq:
  "build_sum_query i =
     (''SELECT COALESCE(SUM('' @ metric_column (metric i) @ ''), 0) FROM video_snapshots ''
      @ where_clause (where_clauses_of i), params_of i)"
  by (simp add: build_sum_query_def where_clauses_of_def params_of_def Let_def case_prod_unfold)

lemma where_clauses_of_eq:
  "where_clauses_of i =
     (case time_range i of None \<Rightarrow> [] | Some d \<Rightarrow>
        (case map_of d ''start'' of None \<Rightarrow> [] | Some _ \<Rightarrow> [''created_at >= :start_date'']) @
        (case map_of d ''end'' of None \<Rightarrow> [] | Some _ \<Rightarrow> [''created_at <= :end_date'']))
     @ map (\<lambda>k. k @ '' = :'' @ k) (map fst (filters i))"
  by (simp add: where_clauses_of_def handle_filters_clauses handle_time_range_clauses)

lemma metric_column_default:
  "m \<notin> {''views'', ''likes'', ''comments'', ''reports''} \<Longrightarrow> metric_column m = ''delta_views_count''"
  by (simp add: metric_column_def)

lemma metric_column_range:
  "metric_column m \<in> {''delta_views_count'', ''delta_likes_count'',
                       ''delta_comments_count'', ''delta_reports_count''}"
  by (simp add: metric_column_def)



lemma build_query_supported:
  "intent i = ''count'' \<or> intent i = ''sum'' \<Longrightarrow>
   build_query i =
     Inr ((if intent i = ''count''
           then (if metric i = ''videos'' then ''SELECT COUNT(*) FROM videos ''
                 else ''SELECT COUNT(DISTINCT video_id) FROM video_snapshots '')
           else ''SELECT COALESCE(SUM('' @ metric_column (metric i) @ ''), 0) FROM video_snapshots '')
          @ where_clause (where_clauses_of i), params_of i)"
  by (auto simp: build_query_def build_count_query_eq build_sum_query_eq)

lemma template_depends_on_keys:
  assumes "intent i1 = intent i2" and "metric i1 = metric i2"
    and "time_range i1 = time_range i2" and "map fst (filters i1) = map fst (filters i2)"
  shows "template_of (build_query i1) = template_of (build_query i2)"
    and "param_names_of (build_query i1) = param_names_of (build_query i2)"
proof -
  have w: "where_clauses_of i1 = where_clauses_of i2"
    using assms by (simp add: where_clauses_of_eq)
  have p: "map fst (params_of i1) = map fst (params_of i2)"
    unfolding params_of_def using assms(3,4)
    by (intro handle_filters_param_keys) simp_all
  show "template_of (build_query i1) = template_of (build_query i2)"
    using assms(1,2) w
    by (simp add: template_of_def build_query_def build_count_query_eq build_sum_query_eq)
  show "param_names_of (build_query i1) = param_names_of (build_query i2)"
    using assms(1,2) p
    by (simp add: param_names_of_def build_query_def build_count_query_eq build_sum_query_eq)
qed

lemma filter_keys_in_where_clauses:
  "k \<in> fst ` set (filters i) \<Longrightarrow> (k @ '' = :'' @ k) \<in> set (where_clauses_of i)"
  by (auto simp: where_clauses_of_eq)

lemma filter_keys_in_params:
  "k \<in> fst ` set (filters i) \<Longrightarrow> k \<in> fst ` set (params_of i)"
  using handle_filters_binds_keys [of "filters i" "handle_time_range (time_range i) ([], [])"]
  by (auto simp: params_of_def)

lemma build_query_ignores_group_by: "build_query (i\<lparr>group_by := g\<rparr>) = build_query i"
  by (simp add: build_query_def build_count_query_def build_sum_query_def)

lemma handle_time_range_dict_eq:
  assumes "dict_eq d1 d2" and "is_dict d1" and "is_dict d2"
  shows "handle_time_range (Some d1) st = handle_time_range (Some d2) st"
proof -
  from assms have m: "map_of d1 = map_of d2"
    by (simp add: dict_eq_def is_dict_def map_of_inject_set)
  from assms(1) have e: "d1 = [] \<longleftrightarrow> d2 = []"
    unfolding dict_eq_def by (metis set_empty)
  show ?thesis by (simp add: handle_time_range_def m e)
qed

lemma handle_time_range_eq:
  assumes "time_range_eq t1 t2"
    and "case t1 of None \<Rightarrow> True | Some d \<Rightarrow> is_dict d"
    and "case t2 of None \<Rightarrow> True | Some d \<Rightarrow> is_dict d"
  shows "handle_time_range t1 st = handle_time_range t2 st"
proof (cases t1)
  case None
  with assms(1) have "t2 = None" by (cases t2) (simp_all add: time_range_eq_def)
  with None show ?thesis by simp
next
  case (Some d1)
  with assms(1) obtain d2 where t2: "t2 = Some d2" and "dict_eq d1 d2"
    by (cases t2) (simp_all add: time_range_eq_def)
  with assms(2,3) Some show ?thesis by (simp add: handle_time_range_dict_eq)
qed

section \<open>Facts about construction\<close>

lemma as_str_dict_strings: "as_str_dict (map (\<lambda>(k, s). (k, JStr s)) d) = Some d"
  by (induction d) auto

lemma QueryIntent_init_intent_fault:
  "required_str (map_of raw ''intent'') = None \<Longrightarrow>
   \<exists>names. QueryIntent_init raw = Inl (ValidationError names) \<and> ''intent'' \<in> set names"
  by (simp add: QueryIntent_init_def Let_def field_error_def)

lemma QueryIntent_init_metric_fault:
  "required_str (map_of raw ''metric'') = None \<Longrightarrow>
   \<exists>names. QueryIntent_init raw = Inl (ValidationError names) \<and> ''metric'' \<in> set names"
  by (simp add: QueryIntent_init_def Let_def field_error_def split: option.splits)

lemma required_str_fault:
  "r = None \<or> r = Some JNull \<or> r = Some (JList xs) \<or> r = Some (JObj kvs) \<Longrightarrow>
   required_str r = None"
  by (auto simp: required_str_def)

section \<open>The claims\<close>

text \<open>
  Claim C3. An intent whose aggregation kind is neither \<open>count\<close> nor \<open>sum\<close> (the two
  kinds that are implemented) makes \<open>build_query\<close> fail with the error
  "Unsupported query type: ..." that names the kind; no query is produced in its place.
\<close>

theorem unsupported_query_type:
  "intent i \<noteq> ''count'' \<Longrightarrow> intent i \<noteq> ''sum'' \<Longrightarrow>
   build_query i = Inl (ValueError (''Unsupported query type: '' @ intent i))"
  by (simp add: build_query_def)

theorem unsupported_query_type_witness:
  "build_query \<lparr>intent = ''median'', metric = ''views'', time_range = None, filters = [],
                group_by = None\<rparr>
   = Inl (ValueError ''Unsupported query type: median'')"
  using unsupported_query_type
    [of "\<lparr>intent = ''median'', metric = ''views'', time_range = None, filters = [],
          group_by = None\<rparr>"]
  by simp

text \<open>
  Claim C6. An intent with aggregation \<open>sum\<close> compiles to a query over
  \<open>video_snapshots\<close> whose aggregate is \<open>COALESCE(SUM(column), 0)\<close> for one of the four
  delta columns, so that the query has the result 0 where no row matches. The intent
  of scenario C (sum of views, time range 2025-11-28 to 2025-11-28) compiles to the sum
  of \<open>delta_views_count\<close> with the two inclusive bounds of that day.
\<close>

theorem sum_query_coalesce_zero:
  "(intent i = ''sum'' \<longrightarrow>
      build_query i =
        Inr (''SELECT COALESCE(SUM('' @ metric_column (metric i) @ ''), 0) FROM video_snapshots ''
               @ where_clause (where_clauses_of i), params_of i)
      \<and> metric_column (metric i) \<in> {''delta_views_count'', ''delta_likes_count'',
                                      ''delta_comments_count'', ''delta_reports_count''})
   \<and> build_query \<lparr>intent = ''sum'', metric = ''views'',
                   time_range = Some [(''start'', ''2025-11-28''), (''end'', ''2025-11-28'')],
                   filters = [], group_by = None\<rparr>
      = Inr (''SELECT COALESCE(SUM(delta_views_count), 0) FROM video_snapshots WHERE created_at >= :start_date AND created_at <= :end_date'',
             [(''start_date'', JStr ''2025-11-28''), (''end_date'', JStr ''2025-11-28'')])"
proof (intro conjI impI)
  assume "intent i = ''sum''"
  then show "build_query i =
        Inr (''SELECT COALESCE(SUM('' @ metric_column (metric i) @ ''), 0) FROM video_snapshots ''
               @ where_clause (where_clauses_of i), params_of i)"
    by (simp add: build_query_def build_sum_query_eq)
next
  show "metric_column (metric i) \<in> {''delta_views_count'', ''delta_likes_count'',
                                      ''delta_comments_count'', ''delta_reports_count''}"
    by (rule metric_column_range)
next
  show "build_query \<lparr>intent = ''sum'', metric = ''views'',
                   time_range = Some [(''start'', ''2025-11-28''), (''end'', ''2025-11-28'')],
                   filters = [], group_by = None\<rparr>
      = Inr (''SELECT COALESCE(SUM(delta_views_count), 0) FROM video_snapshots WHERE created_at >= :start_date AND created_at <= :end_date'',
             [(''start_date'', JStr ''2025-11-28''), (''end_date'', JStr ''2025-11-28'')])"
    by (simp add: build_query_def build_sum_query_def handle_time_range_def where_clause_def
        metric_column_def)
qed

theorem sum_query_coalesce_zero_witness:
  "build_query \<lparr>intent = ''sum'', metric = ''likes'', time_range = None, filters = [],
                group_by = None\<rparr>
   = Inr (''SELECT COALESCE(SUM(delta_likes_count), 0) FROM video_snapshots '', [])"
  using sum_query_coalesce_zero
    [of "\<lparr>intent = ''sum'', metric = ''likes'', time_range = None, filters = [],
          group_by = None\<rparr>"]
  by (simp add: where_clauses_of_def params_of_def handle_time_range_def where_clause_def
      metric_column_def)

text \<open>
  Claim C7. An intent with aggregation \<open>count\<close> and metric \<open>videos\<close> compiles to a
  count of the rows of \<open>videos\<close>. With no filters and no time range the query is the
  bare count and the parameter mapping is empty (scenario A). With the filter
  \<open>creator_id: 123\<close> and the time range 2025-11-01 to 2025-11-05 the query carries the
  two inclusive timestamp predicates and the creator equality, and exactly the three
  parameters \<open>start_date\<close>, \<open>end_date\<close> and \<open>creator_id\<close> (scenario B).
\<close>

theorem count_videos_query:
  "(intent i = ''count'' \<and> metric i = ''videos'' \<longrightarrow>
      build_query i = Inr (''SELECT COUNT(*) FROM videos '' @ where_clause (where_clauses_of i),
                           params_of i))
   \<and> (intent i = ''count'' \<and> metric i = ''videos'' \<and> filters i = [] \<and> time_range i = None \<longrightarrow>
      build_query i = Inr (''SELECT COUNT(*) FROM videos '', []))
   \<and> build_query \<lparr>intent = ''count'', metric = ''videos'',
                   time_range = Some [(''start'', ''2025-11-01''), (''end'', ''2025-11-05'')],
                   filters = [(''creator_id'', JInt 123)], group_by = None\<rparr>
      = Inr (''SELECT COUNT(*) FROM videos WHERE created_at >= :start_date AND created_at <= :end_date AND creator_id = :creator_id'',
             [(''start_date'', JStr ''2025-11-01''), (''end_date'', JStr ''2025-11-05''),
              (''creator_id'', JInt 123)])"
proof (intro conjI impI)
  assume "intent i = ''count'' \<and> metric i = ''videos''"
  then show "build_query i = Inr (''SELECT COUNT(*) FROM videos '' @ where_clause (where_clauses_of i),
                           params_of i)"
    by (simp add: build_query_def build_count_query_eq)
next
  assume "intent i = ''count'' \<and> metric i = ''videos'' \<and> filters i = [] \<and> time_range i = None"
  then show "build_query i = Inr (''SELECT COUNT(*) FROM videos '', [])"
    by (simp add: build_query_def build_count_query_def handle_time_range_def where_clause_def)
next
  show "build_query \<lparr>intent = ''count'', metric = ''videos'',
                   time_range = Some [(''start'', ''2025-11-01''), (''end'', ''2025-11-05'')],
                   filters = [(''creator_id'', JInt 123)], group_by = None\<rparr>
      = Inr (''SELECT COUNT(*) FROM videos WHERE created_at >= :start_date AND created_at <= :end_date AND creator_id = :creator_id'',
             [(''start_date'', JStr ''2025-11-01''), (''end_date'', JStr ''2025-11-05''),
              (''creator_id'', JInt 123)])"
    by (simp add: build_query_def build_count_query_def handle_time_range_def where_clause_def)
qed

theorem count_videos_query_witness:
  "build_query \<lparr>intent = ''count'', metric = ''videos'', time_range = None, filters = [],
                group_by = Some ''creator_id''\<rparr>
   = Inr (''SELECT COUNT(*) FROM videos '', [])"
  using count_videos_query
    [of "\<lparr>intent = ''count'', metric = ''videos'', time_range = None, filters = [],
          group_by = Some ''creator_id''\<rparr>"]
  by (simp add: where_clauses_of_def params_of_def handle_time_range_def where_clause_def)

text \<open>
  Claim C10. An intent with aggregation \<open>sum\<close> whose metric is none of \<open>views\<close>,
  \<open>likes\<close>, \<open>comments\<close>, \<open>reports\<close> compiles without an error, to a query that
  sums the default column \<open>delta_views_count\<close>.
\<close>

theorem sum_unknown_metric_defaults_to_views:
  "intent i = ''sum'' \<Longrightarrow> metric i \<notin> {''views'', ''likes'', ''comments'', ''reports''} \<Longrightarrow>
   build_query i =
     Inr (''SELECT COALESCE(SUM(delta_views_count), 0) FROM video_snapshots ''
            @ where_clause (where_clauses_of i), params_of i)"
  by (simp add: build_query_def build_sum_query_eq metric_column_default)

theorem sum_unknown_metric_defaults_to_views_witness:
  "build_query \<lparr>intent = ''sum'', metric = ''shares'', time_range = None, filters = [],
                group_by = None\<rparr>
   = Inr (''SELECT COALESCE(SUM(delta_views_count), 0) FROM video_snapshots '', [])"
  using sum_unknown_metric_defaults_to_views
    [of "\<lparr>intent = ''sum'', metric = ''shares'', time_range = None, filters = [],
          group_by = None\<rparr>"]
  by (simp add: where_clauses_of_def params_of_def handle_time_range_def where_clause_def)

text \<open>
  Claim C1. For every intent, every filter key \<open>k\<close> and any two values \<open>v1\<close>, \<open>v2\<close>
  stored under that key (one may hold quotes, semicolons or comment sequences, the
  other may be benign), \<open>build_query\<close> produces the same template, character for
  character, and the same parameter names: the value reaches the parameter mapping
  only.
\<close>

theorem filter_value_not_in_template:
  "template_of (build_query (i\<lparr>filters := dict_set (filters i) k v1\<rparr>))
     = template_of (build_query (i\<lparr>filters := dict_set (filters i) k v2\<rparr>))
   \<and> param_names_of (build_query (i\<lparr>filters := dict_set (filters i) k v1\<rparr>))
     = param_names_of (build_query (i\<lparr>filters := dict_set (filters i) k v2\<rparr>))"
proof
  show "template_of (build_query (i\<lparr>filters := dict_set (filters i) k v1\<rparr>))
     = template_of (build_query (i\<lparr>filters := dict_set (filters i) k v2\<rparr>))"
    by (rule template_depends_on_keys(1)) (simp_all add: keys_dict_set)
  show "param_names_of (build_query (i\<lparr>filters := dict_set (filters i) k v1\<rparr>))
     = param_names_of (build_query (i\<lparr>filters := dict_set (filters i) k v2\<rparr>))"
    by (rule template_depends_on_keys(2)) (simp_all add: keys_dict_set)
qed

theorem filter_value_not_in_template_witness:
  "template_of (build_query \<lparr>intent = ''count'', metric = ''videos'', time_range = None,
       filters = [(''creator_id'', JStr ''123'; DROP TABLE videos; --'')], group_by = None\<rparr>)
   = template_of (build_query \<lparr>intent = ''count'', metric = ''videos'', time_range = None,
       filters = [(''creator_id'', JInt 123)], group_by = None\<rparr>)
   \<and> template_of (build_query \<lparr>intent = ''count'', metric = ''videos'', time_range = None,
       filters = [(''creator_id'', JInt 123)], group_by = None\<rparr>)
     = Inr ''SELECT COUNT(*) FROM videos WHERE creator_id = :creator_id''"
proof
  show "template_of (build_query \<lparr>intent = ''count'', metric = ''videos'', time_range = None,
       filters = [(''creator_id'', JStr ''123'; DROP TABLE videos; --'')], group_by = None\<rparr>)
   = template_of (build_query \<lparr>intent = ''count'', metric = ''videos'', time_range = None,
       filters = [(''creator_id'', JInt 123)], group_by = None\<rparr>)"
    using filter_value_not_in_template
      [of "\<lparr>intent = ''count'', metric = ''videos'', time_range = None,
            filters = [(''creator_id'', JNull)], group_by = None\<rparr>"
          "''creator_id''" "JStr ''123'; DROP TABLE videos; --''" "JInt 123"]
    by simp
  show "template_of (build_query \<lparr>intent = ''count'', metric = ''videos'', time_range = None,
       filters = [(''creator_id'', JInt 123)], group_by = None\<rparr>)
     = Inr ''SELECT COUNT(*) FROM videos WHERE creator_id = :creator_id''"
    by (simp add: template_of_def build_query_def build_count_query_def handle_time_range_def
        where_clause_def)
qed

text \<open>
  Claim C2, as stated, fails: an intent whose filter key, metric and group-by key are
  all unknown compiles without an error, the filter key is written into the template,
  the metric falls back to the default column and the group-by key is dropped.
\<close>

theorem unknown_keys_compile_counterexample:
  "build_query \<lparr>intent = ''sum'', metric = ''bogus'', time_range = None,
                filters = [(''no_such_column'', JInt 1)],
                group_by = Some ''no_such_group''\<rparr>
   = Inr (''SELECT COALESCE(SUM(delta_views_count), 0) FROM video_snapshots WHERE no_such_column = :no_such_column'',
          [(''no_such_column'', JInt 1)])"
  by (simp add: build_query_def build_sum_query_def handle_time_range_def where_clause_def
      metric_column_def)

text \<open>
  Claim C2, amended. The builder holds no vocabulary and rejects no key: for every
  intent with aggregation \<open>count\<close> or \<open>sum\<close>, whatever its filter keys, metric and
  group-by key, compilation succeeds; every filter key is written verbatim into the
  template as the predicate \<open>key = :key\<close> and is a parameter name; the metric only
  selects among the three fixed select heads; the group-by key has no effect on the
  result.
\<close>

theorem keys_are_interpolated_unchecked:
  assumes "intent i = ''count'' \<or> intent i = ''sum''"
  shows "build_query i =
           Inr ((if intent i = ''count''
                 then (if metric i = ''videos'' then ''SELECT COUNT(*) FROM videos ''
                       else ''SELECT COUNT(DISTINCT video_id) FROM video_snapshots '')
                 else ''SELECT COALESCE(SUM('' @ metric_column (metric i)
                        @ ''), 0) FROM video_snapshots '')
                @ where_clause (where_clauses_of i), params_of i)
         \<and> (\<forall>k \<in> fst ` set (filters i).
               (k @ '' = :'' @ k) \<in> set (where_clauses_of i) \<and> k \<in> fst ` set (params_of i))
         \<and> build_query (i\<lparr>group_by := g\<rparr>) = build_query i"
  using build_query_supported [OF assms] filter_keys_in_where_clauses filter_keys_in_params
    build_query_ignores_group_by
  by blast

theorem keys_are_interpolated_unchecked_witness:
  "build_query \<lparr>intent = ''count'', metric = ''bogus'', time_range = None,
                filters = [(''x; DROP TABLE videos; --'', JInt 1)], group_by = None\<rparr>
   = Inr (''SELECT COUNT(DISTINCT video_id) FROM video_snapshots WHERE x; DROP TABLE videos; -- = :x; DROP TABLE videos; --'',
          [(''x; DROP TABLE videos; --'', JInt 1)])
   \<and> build_query \<lparr>intent = ''count'', metric = ''bogus'', time_range = None,
                filters = [(''x; DROP TABLE videos; --'', JInt 1)],
                group_by = Some ''no_such_group''\<rparr>
     = build_query \<lparr>intent = ''count'', metric = ''bogus'', time_range = None,
                filters = [(''x; DROP TABLE videos; --'', JInt 1)], group_by = None\<rparr>"
  using keys_are_interpolated_unchecked
    [of "\<lparr>intent = ''count'', metric = ''bogus'', time_range = None,
          filters = [(''x; DROP TABLE videos; --'', JInt 1)], group_by = None\<rparr>"
        "Some ''no_such_group''"]
  by (simp add: where_clauses_of_def params_of_def handle_time_range_def where_clause_def)

text \<open>
  Claim C4, as stated, fails: two equal intents, whose filters hold the same entries
  inserted in a different order, compile to different templates, since the filter
  predicates follow the iteration order of the \<open>filters\<close> dictionary.
\<close>

theorem filter_order_changes_template_counterexample:
  "intent_eq
     \<lparr>intent = ''count'', metric = ''videos'', time_range = None,
        filters = [(''creator_id'', JInt 123), (''views_count'', JInt 100000)], group_by = None\<rparr>
     \<lparr>intent = ''count'', metric = ''videos'', time_range = None,
        filters = [(''views_count'', JInt 100000), (''creator_id'', JInt 123)], group_by = None\<rparr>
   \<and> template_of (build_query
        \<lparr>intent = ''count'', metric = ''videos'', time_range = None,
          filters = [(''creator_id'', JInt 123), (''views_count'', JInt 100000)],
          group_by = None\<rparr>)
     = Inr ''SELECT COUNT(*) FROM videos WHERE creator_id = :creator_id AND views_count = :views_count''
   \<and> template_of (build_query
        \<lparr>intent = ''count'', metric = ''videos'', time_range = None,
          filters = [(''views_count'', JInt 100000), (''creator_id'', JInt 123)],
          group_by = None\<rparr>)
     = Inr ''SELECT COUNT(*) FROM videos WHERE views_count = :views_count AND creator_id = :creator_id''
   \<and> template_of (build_query
        \<lparr>intent = ''count'', metric = ''videos'', time_range = None,
          filters = [(''creator_id'', JInt 123), (''views_count'', JInt 100000)],
          group_by = None\<rparr>)
     \<noteq> template_of (build_query
        \<lparr>intent = ''count'', metric = ''videos'', time_range = None,
          filters = [(''views_count'', JInt 100000), (''creator_id'', JInt 123)],
          group_by = None\<rparr>)"
  by (auto simp add: intent_eq_def time_range_eq_def dict_eq_def template_of_def build_query_def
      build_count_query_def handle_time_range_def where_clause_def)

text \<open>
  Claim C4, amended. Two equal intents whose \<open>filters\<close> list their entries in the same
  insertion order compile to identical templates and identical parameter mappings
  (the order of the entries of \<open>time_range\<close>, and \<open>group_by\<close>, play no part). The
  predicates are ordered: lower time bound, upper time bound (each when present), then
  one predicate per filter in the insertion order of \<open>filters\<close>.
\<close>

theorem compilation_follows_insertion_order:
  assumes "intent_eq i1 i2" and "well_formed i1" and "well_formed i2"
    and "filters i1 = filters i2"
  shows "build_query i1 = build_query i2
         \<and> where_clauses_of i1 =
             (case time_range i1 of None \<Rightarrow> [] | Some d \<Rightarrow>
                (case map_of d ''start'' of None \<Rightarrow> []
                 | Some D1 \<Rightarrow> [''created_at >= :start_date''])
                @ (case map_of d ''end'' of None \<Rightarrow> []
                   | Some D2 \<Rightarrow> [''created_at <= :end_date'']))
             @ map (\<lambda>k. k @ '' = :'' @ k) (map fst (filters i1))"
proof
  from assms(1) have a: "intent i1 = intent i2" and m: "metric i1 = metric i2"
    and t: "time_range_eq (time_range i1) (time_range i2)"
    by (simp_all add: intent_eq_def)
  have h: "handle_time_range (time_range i1) ([], []) = handle_time_range (time_range i2) ([], [])"
    using t assms(2,3) by (intro handle_time_range_eq) (simp_all add: well_formed_def)
  have w: "where_clauses_of i1 = where_clauses_of i2"
    by (simp add: where_clauses_of_def h assms(4))
  have p: "params_of i1 = params_of i2"
    by (simp add: params_of_def h assms(4))
  show "build_query i1 = build_query i2"
    by (simp add: build_query_def build_count_query_eq build_sum_query_eq a m w p)
  show "where_clauses_of i1 =
             (case time_range i1 of None \<Rightarrow> [] | Some d \<Rightarrow>
                (case map_of d ''start'' of None \<Rightarrow> []
                 | Some D1 \<Rightarrow> [''created_at >= :start_date''])
                @ (case map_of d ''end'' of None \<Rightarrow> []
                   | Some D2 \<Rightarrow> [''created_at <= :end_date'']))
             @ map (\<lambda>k. k @ '' = :'' @ k) (map fst (filters i1))"
    by (rule where_clauses_of_eq)
qed

theorem compilation_follows_insertion_order_witness:
  "build_query \<lparr>intent = ''sum'', metric = ''likes'',
                time_range = Some [(''end'', ''2025-11-05''), (''start'', ''2025-11-01'')],
                filters = [(''creator_id'', JInt 123)], group_by = None\<rparr>
   = build_query \<lparr>intent = ''sum'', metric = ''likes'',
                time_range = Some [(''start'', ''2025-11-01''), (''end'', ''2025-11-05'')],
                filters = [(''creator_id'', JInt 123)], group_by = None\<rparr>
   \<and> where_clauses_of \<lparr>intent = ''sum'', metric = ''likes'',
                time_range = Some [(''end'', ''2025-11-05''), (''start'', ''2025-11-01'')],
                filters = [(''creator_id'', JInt 123)], group_by = None\<rparr>
     = [''created_at >= :start_date'', ''created_at <= :end_date'', ''creator_id = :creator_id'']"
proof -
  let ?i1 = "\<lparr>intent = ''sum'', metric = ''likes'',
                time_range = Some [(''end'', ''2025-11-05''), (''start'', ''2025-11-01'')],
                filters = [(''creator_id'', JInt 123)], group_by = None\<rparr>"
  let ?i2 = "\<lparr>intent = ''sum'', metric = ''likes'',
                time_range = Some [(''start'', ''2025-11-01''), (''end'', ''2025-11-05'')],
                filters = [(''creator_id'', JInt 123)], group_by = None\<rparr>"
  have e: "intent_eq ?i1 ?i2"
    by (auto simp: intent_eq_def time_range_eq_def dict_eq_def)
  have w1: "well_formed ?i1" and w2: "well_formed ?i2"
    by (simp_all add: well_formed_def is_dict_def)
  have f: "filters ?i1 = filters ?i2" by simp
  show ?thesis
    using compilation_follows_insertion_order [OF e w1 w2 f] by simp
qed




text \<open>
  Claim C8. The intent of scenario D (count, metric \<open>views\<close>, one day, filter
  \<open>min_delta_views: 1\<close>) does compile to a count of distinct \<open>video_id\<close> over
  \<open>video_snapshots\<close>, but the threshold filter becomes the equality
  \<open>min_delta_views = :min_delta_views\<close>, not a comparison on the delta column: the loop
  over the filters writes \<open>=\<close> for every key.
\<close>

theorem threshold_filter_compiles_to_equality:
  "build_query \<lparr>intent = ''count'', metric = ''views'',
                time_range = Some [(''start'', ''2025-11-27''), (''end'', ''2025-11-27'')],
                filters = [(''min_delta_views'', JInt 1)], group_by = None\<rparr>
   = Inr (''SELECT COUNT(DISTINCT video_id) FROM video_snapshots WHERE created_at >= :start_date AND created_at <= :end_date AND min_delta_views = :min_delta_views'',
          [(''start_date'', JStr ''2025-11-27''), (''end_date'', JStr ''2025-11-27''),
           (''min_delta_views'', JInt 1)])"
  by (simp add: build_query_def build_count_query_def handle_time_range_def where_clause_def)

text \<open>
  Claim C9, as stated, fails: construction succeeds for an aggregation and a metric
  outside every supported set, for a time range whose start is after its end, for a
  bound that is no timestamp, for an unknown filter key and for a non-numeric value
  under \<open>creator_id\<close>.
\<close>

theorem construction_accepts_any_content_counterexample:
  "QueryIntent_init
     [(''intent'', JStr ''median''), (''metric'', JStr ''bogus''),
      (''time_range'', JObj [(''start'', JStr ''2025-12-31''), (''end'', JStr ''2025-01-01'')]),
      (''filters'', JObj [(''no_such_key'', JInt 1), (''creator_id'', JStr ''abc'')])]
   = Inr \<lparr>intent = ''median'', metric = ''bogus'',
          time_range = Some [(''start'', ''2025-12-31''), (''end'', ''2025-01-01'')],
          filters = [(''no_such_key'', JInt 1), (''creator_id'', JStr ''abc'')],
          group_by = None\<rparr>
   \<and> QueryIntent_init
     [(''intent'', JStr ''count''), (''metric'', JStr ''videos''),
      (''time_range'', JObj [(''start'', JStr ''next week'')])]
   = Inr \<lparr>intent = ''count'', metric = ''videos'',
          time_range = Some [(''start'', ''next week'')], filters = [], group_by = None\<rparr>"
  by (simp add: QueryIntent_init_def required_str_def optional_str_dict_def any_dict_def
      optional_str_def)

text \<open>
  Claim C9, amended. Constructing an intent from a raw key/value structure checks
  nothing about the content of its fields. It succeeds, keeping the values as they are,
  whenever \<open>intent\<close> and \<open>metric\<close> are strings and, each independently of the
  others, \<open>time_range\<close> is missing, null or a dictionary of strings, \<open>filters\<close> is
  missing or a dictionary, and \<open>group_by\<close> is missing, null or a string (a missing
  field takes its default). It fails with an error whose field names include
  \<open>intent\<close> when \<open>intent\<close> is missing, null, a list or an object, and likewise
  for \<open>metric\<close>. It is a function of its input, without side effects.
\<close>

theorem construction_checks_types_only:
  "(map_of raw ''intent'' = Some (JStr a) \<and> map_of raw ''metric'' = Some (JStr m)
    \<and> (map_of raw ''time_range'' = None \<and> t = None
       \<or> map_of raw ''time_range'' = Some JNull \<and> t = None
       \<or> map_of raw ''time_range'' = Some (JObj (map (\<lambda>(k, s). (k, JStr s)) d)) \<and> t = Some d)
    \<and> (map_of raw ''filters'' = None \<and> f = []
       \<or> map_of raw ''filters'' = Some (JObj f))
    \<and> (map_of raw ''group_by'' = None \<and> g = None
       \<or> map_of raw ''group_by'' = Some JNull \<and> g = None
       \<or> map_of raw ''group_by'' = Some (JStr s) \<and> g = Some s)
    \<longrightarrow> QueryIntent_init raw
          = Inr \<lparr>intent = a, metric = m, time_range = t, filters = f, group_by = g\<rparr>)
   \<and> (map_of raw ''intent'' = None \<or> map_of raw ''intent'' = Some JNull
      \<or> map_of raw ''intent'' = Some (JList xs) \<or> map_of raw ''intent'' = Some (JObj kvs)
    \<longrightarrow> (\<exists>names. QueryIntent_init raw = Inl (ValidationError names)
           \<and> ''intent'' \<in> set names))
   \<and> (map_of raw ''metric'' = None \<or> map_of raw ''metric'' = Some JNull
      \<or> map_of raw ''metric'' = Some (JList xs) \<or> map_of raw ''metric'' = Some (JObj kvs)
    \<longrightarrow> (\<exists>names. QueryIntent_init raw = Inl (ValidationError names)
           \<and> ''metric'' \<in> set names))"
proof (intro conjI impI)
  assume h: "map_of raw ''intent'' = Some (JStr a) \<and> map_of raw ''metric'' = Some (JStr m)
    \<and> (map_of raw ''time_range'' = None \<and> t = None
       \<or> map_of raw ''time_range'' = Some JNull \<and> t = None
       \<or> map_of raw ''time_range'' = Some (JObj (map (\<lambda>(k, s). (k, JStr s)) d)) \<and> t = Some d)
    \<and> (map_of raw ''filters'' = None \<and> f = []
       \<or> map_of raw ''filters'' = Some (JObj f))
    \<and> (map_of raw ''group_by'' = None \<and> g = None
       \<or> map_of raw ''group_by'' = Some JNull \<and> g = None
       \<or> map_of raw ''group_by'' = Some (JStr s) \<and> g = Some s)"
  then have a: "required_str (map_of raw ''intent'') = Some a"
    and m: "required_str (map_of raw ''metric'') = Some m"
    by (simp_all add: required_str_def)
  from h have t: "optional_str_dict (map_of raw ''time_range'') = Some t"
    by (auto simp: optional_str_dict_def as_str_dict_strings)
  from h have f: "any_dict (map_of raw ''filters'') = Some f"
    by (auto simp: any_dict_def)
  from h have g: "optional_str (map_of raw ''group_by'') = Some g"
    by (auto simp: optional_str_def)
  show "QueryIntent_init raw
          = Inr \<lparr>intent = a, metric = m, time_range = t, filters = f, group_by = g\<rparr>"
    by (simp add: QueryIntent_init_def a m t f g)
next
  assume "map_of raw ''intent'' = None \<or> map_of raw ''intent'' = Some JNull
      \<or> map_of raw ''intent'' = Some (JList xs) \<or> map_of raw ''intent'' = Some (JObj kvs)"
  then have "required_str (map_of raw ''intent'') = None" by (rule required_str_fault)
  then show "\<exists>names. QueryIntent_init raw = Inl (ValidationError names) \<and> ''intent'' \<in> set names"
    by (rule QueryIntent_init_intent_fault)
next
  assume "map_of raw ''metric'' = None \<or> map_of raw ''metric'' = Some JNull
      \<or> map_of raw ''metric'' = Some (JList xs) \<or> map_of raw ''metric'' = Some (JObj kvs)"
  then have "required_str (map_of raw ''metric'') = None" by (rule required_str_fault)
  then show "\<exists>names. QueryIntent_init raw = Inl (ValidationError names) \<and> ''metric'' \<in> set names"
    by (rule QueryIntent_init_metric_fault)
qed

theorem construction_checks_types_only_witness:
  "QueryIntent_init
     [(''intent'', JStr ''average''), (''metric'', JStr ''shares''),
      (''filters'', JObj [(''colour'', JBool True)])]
   = Inr \<lparr>intent = ''average'', metric = ''shares'', time_range = None,
          filters = [(''colour'', JBool True)], group_by = None\<rparr>
   \<and> QueryIntent_init
     [(''intent'', JStr ''x''), (''metric'', JStr ''''),
      (''time_range'', JObj [(''start'', JStr ''soon'')]), (''group_by'', JStr ''weekday'')]
   = Inr \<lparr>intent = ''x'', metric = '''', time_range = Some [(''start'', ''soon'')],
          filters = [], group_by = Some ''weekday''\<rparr>
   \<and> (\<exists>names. QueryIntent_init [(''metric'', JStr ''views'')] = Inl (ValidationError names)
         \<and> ''intent'' \<in> set names)
   \<and> (\<exists>names. QueryIntent_init [(''intent'', JStr ''count''), (''metric'', JList [])]
           = Inl (ValidationError names)
         \<and> ''metric'' \<in> set names)"
proof (intro conjI)
  show "QueryIntent_init
     [(''intent'', JStr ''average''), (''metric'', JStr ''shares''),
      (''filters'', JObj [(''colour'', JBool True)])]
   = Inr \<lparr>intent = ''average'', metric = ''shares'', time_range = None,
          filters = [(''colour'', JBool True)], group_by = None\<rparr>"
    using construction_checks_types_only
      [of "[(''intent'', JStr ''average''), (''metric'', JStr ''shares''),
            (''filters'', JObj [(''colour'', JBool True)])]"
          "''average''" "''shares''" None _ "[(''colour'', JBool True)]" None]
    by simp
  show "QueryIntent_init
     [(''intent'', JStr ''x''), (''metric'', JStr ''''),
      (''time_range'', JObj [(''start'', JStr ''soon'')]), (''group_by'', JStr ''weekday'')]
   = Inr \<lparr>intent = ''x'', metric = '''', time_range = Some [(''start'', ''soon'')],
          filters = [], group_by = Some ''weekday''\<rparr>"
    using construction_checks_types_only
      [of "[(''intent'', JStr ''x''), (''metric'', JStr ''''),
            (''time_range'', JObj [(''start'', JStr ''soon'')]), (''group_by'', JStr ''weekday'')]"
          "''x''" "''''" "Some [(''start'', ''soon'')]" "[(''start'', ''soon'')]" "[]"
          "Some ''weekday''" "''weekday''"]
    by simp
  show "\<exists>names. QueryIntent_init [(''metric'', JStr ''views'')] = Inl (ValidationError names)
         \<and> ''intent'' \<in> set names"
    using construction_checks_types_only [of "[(''metric'', JStr ''views'')]"]
    by simp
  show "\<exists>names. QueryIntent_init [(''intent'', JStr ''count''), (''metric'', JList [])]
           = Inl (ValidationError names)
         \<and> ''metric'' \<in> set names"
    using construction_checks_types_only
      [of "[(''intent'', JStr ''count''), (''metric'', JList [])]" _ _ _ _ _ _ _ "[]"]
    by simp
qed

end
